theory Spec2Isabelle
  imports Complex_Main
begin

section \<open>Python values\<close>

subsection \<open>Strings and the Unicode data used by the text normaliser\<close>

text \<open>
  A Python \<open>str\<close> is a sequence of Unicode code points, so it is modelled as a list of
  integers (one per code point, as \<open>ord\<close> gives them), not as a list of bytes. String
  constants of the source are written \<open>lit ''...''\<close>.

  The Unicode character data (\<open>str.lower\<close>, \<open>unicodedata.normalize\<close>,
  \<open>unicodedata.category\<close>, the word characters of \<open>re\<close>) is modelled for the code points
  U+0000..U+00FF (Basic Latin and Latin-1) and U+0300..U+036F (combining diacritical
  marks). The white-space table is the complete one of CPython. Code points outside the
  modelled range are passed through unchanged by \<open>lower_cp\<close> and \<open>decompose_cp\<close>.
\<close>

type_synonym pystr = "int list"

definition lit :: "string \<Rightarrow> pystr" where
  "lit s = map of_char s"


definition is_space :: "int \<Rightarrow> bool" where
  "is_space c \<longleftrightarrow> c \<in> set [0x09, 0x0A, 0x0B, 0x0C, 0x0D, 0x1C, 0x1D, 0x1E, 0x1F, 0x20,
      0x85, 0xA0, 0x1680, 0x2000, 0x2001, 0x2002, 0x2003, 0x2004, 0x2005, 0x2006, 0x2007,
      0x2008, 0x2009, 0x200A, 0x2028, 0x2029, 0x202F, 0x205F, 0x3000]"

definition is_digit :: "int \<Rightarrow> bool" where
  "is_digit c \<longleftrightarrow> 0x30 \<le> c \<and> c \<le> 0x39"

text \<open>\<open>\w\<close> of a \<open>str\<close> pattern: alphanumeric characters and the underscore.\<close>

definition is_word :: "int \<Rightarrow> bool" where
  "is_word c \<longleftrightarrow> is_digit c \<or> (0x41 \<le> c \<and> c \<le> 0x5A) \<or> c = 0x5F \<or> (0x61 \<le> c \<and> c \<le> 0x7A)
     \<or> c \<in> set [0xAA, 0xB2, 0xB3, 0xB5, 0xB9, 0xBA, 0xBC, 0xBD, 0xBE]
     \<or> (0xC0 \<le> c \<and> c \<le> 0xFF \<and> c \<noteq> 0xD7 \<and> c \<noteq> 0xF7)"

text \<open>\<open>str.strip()\<close> without argument removes leading and trailing white space.\<close>

definition strip :: "pystr \<Rightarrow> pystr" where
  "strip s = rev (dropWhile is_space (rev (dropWhile is_space s)))"

definition lower_cp :: "int \<Rightarrow> int" where
  "lower_cp c = (if (0x41 \<le> c \<and> c \<le> 0x5A) \<or> (0xC0 \<le> c \<and> c \<le> 0xDE \<and> c \<noteq> 0xD7)
                 then c + 0x20 else c)"

definition lower :: "pystr \<Rightarrow> pystr" where
  "lower s = map lower_cp s"

text \<open>
  Canonical decompositions (fully expanded) of the modelled code points. NFD also
  reorders adjacent combining marks; in the modelled range every reordered character is
  a nonspacing mark, which \<open>normalize_text\<close> removes right after, so the order among them
  is not modelled.
\<close>

definition canonical_decomposition :: "(int \<times> int list) list" where
  "canonical_decomposition =
    [(0xC0, [0x41, 0x300]), (0xC1, [0x41, 0x301]), (0xC2, [0x41, 0x302]), (0xC3, [0x41, 0x303]),
     (0xC4, [0x41, 0x308]), (0xC5, [0x41, 0x30A]), (0xC7, [0x43, 0x327]),
     (0xC8, [0x45, 0x300]), (0xC9, [0x45, 0x301]), (0xCA, [0x45, 0x302]), (0xCB, [0x45, 0x308]),
     (0xCC, [0x49, 0x300]), (0xCD, [0x49, 0x301]), (0xCE, [0x49, 0x302]), (0xCF, [0x49, 0x308]),
     (0xD1, [0x4E, 0x303]),
     (0xD2, [0x4F, 0x300]), (0xD3, [0x4F, 0x301]), (0xD4, [0x4F, 0x302]), (0xD5, [0x4F, 0x303]),
     (0xD6, [0x4F, 0x308]),
     (0xD9, [0x55, 0x300]), (0xDA, [0x55, 0x301]), (0xDB, [0x55, 0x302]), (0xDC, [0x55, 0x308]),
     (0xDD, [0x59, 0x301]),
     (0xE0, [0x61, 0x300]), (0xE1, [0x61, 0x301]), (0xE2, [0x61, 0x302]), (0xE3, [0x61, 0x303]),
     (0xE4, [0x61, 0x308]), (0xE5, [0x61, 0x30A]), (0xE7, [0x63, 0x327]),
     (0xE8, [0x65, 0x300]), (0xE9, [0x65, 0x301]), (0xEA, [0x65, 0x302]), (0xEB, [0x65, 0x308]),
     (0xEC, [0x69, 0x300]), (0xED, [0x69, 0x301]), (0xEE, [0x69, 0x302]), (0xEF, [0x69, 0x308]),
     (0xF1, [0x6E, 0x303]),
     (0xF2, [0x6F, 0x300]), (0xF3, [0x6F, 0x301]), (0xF4, [0x6F, 0x302]), (0xF5, [0x6F, 0x303]),
     (0xF6, [0x6F, 0x308]),
     (0xF9, [0x75, 0x300]), (0xFA, [0x75, 0x301]), (0xFB, [0x75, 0x302]), (0xFC, [0x75, 0x308]),
     (0xFD, [0x79, 0x301]), (0xFF, [0x79, 0x308]),
     (0x340, [0x300]), (0x341, [0x301]), (0x343, [0x313]), (0x344, [0x308, 0x301])]"

text \<open>No code point below U+00C0 has a decomposition, so the table is consulted from there on.\<close>

definition decompose_cp :: "int \<Rightarrow> pystr" where
  "decompose_cp c =
     (if c < 0xC0 then [c]
      else case map_of canonical_decomposition c of Some d \<Rightarrow> d | None \<Rightarrow> [c])"

definition nfd :: "pystr \<Rightarrow> pystr" where
  "nfd s = concat (map decompose_cp s)"

text \<open>\<open>unicodedata.category(c) == "Mn"\<close>: the nonspacing marks.\<close>

definition is_Mn :: "int \<Rightarrow> bool" where
  "is_Mn c \<longleftrightarrow> 0x300 \<le> c \<and> c \<le> 0x36F"

text \<open>\<open>re.sub(r"\s+", " ", text)\<close>: every maximal run of white space becomes one space.\<close>

function collapse_ws :: "pystr \<Rightarrow> pystr" where
  "collapse_ws [] = []"
| "collapse_ws (c # cs) =
     (if is_space c then 0x20 # collapse_ws (dropWhile is_space cs) else c # collapse_ws cs)"
  by pat_completeness auto
termination
  by (relation "measure length") (auto simp: length_dropWhile_le less_Suc_eq_le)

definition startswith :: "pystr \<Rightarrow> pystr \<Rightarrow> bool" where
  "startswith s p \<longleftrightarrow> take (length p) s = p"

text \<open>\<open>p in s\<close> for strings: \<open>p\<close> occurs in \<open>s\<close> as a contiguous substring.\<close>

fun contains :: "pystr \<Rightarrow> pystr \<Rightarrow> bool" where
  "contains [] p = (p = [])"
| "contains (c # cs) p = (startswith (c # cs) p \<or> contains cs p)"

text \<open>\<open>s.replace(old, new)\<close> where \<open>old\<close> is a single character.\<close>

definition replace_cp :: "int \<Rightarrow> pystr \<Rightarrow> pystr \<Rightarrow> pystr" where
  "replace_cp old new s = concat (map (\<lambda>c. if c = old then new else [c]) s)"

subsection \<open>Floats\<close>

text \<open>
  A Python \<open>float\<close> is modelled by the number it denotes: a finite float is an exact
  rational (binary rounding is not modelled), next to the two infinities and NaN.
\<close>

datatype pyfloat = Fin rat | PosInf | NegInf | NaN

text \<open>Comparison \<open>x > 0\<close>; it is false for NaN.\<close>

fun float_gt_zero :: "pyfloat \<Rightarrow> bool" where
  "float_gt_zero (Fin r) = (0 < r)"
| "float_gt_zero PosInf = True"
| "float_gt_zero NegInf = False"
| "float_gt_zero NaN = False"

fun float_lt_zero :: "pyfloat \<Rightarrow> bool" where
  "float_lt_zero (Fin r) = (r < 0)"
| "float_lt_zero PosInf = False"
| "float_lt_zero NegInf = True"
| "float_lt_zero NaN = False"

subsection \<open>Cell values and column labels\<close>

text \<open>
  The values a parsed workbook holds in its cells and in its header row: a blank
  (\<open>None\<close>, or the float NaN, or \<open>NaT\<close> in a column of dates), booleans, integers, floats,
  strings and dates (a \<open>datetime\<close> at midnight, given by year, month and day).
\<close>

datatype pyval =
    PNone
  | PBool bool
  | PInt int
  | PFloat pyfloat
  | PStr pystr
  | PDate nat nat nat
  | PNaT

fun digits :: "nat \<Rightarrow> pystr" where
  "digits n = (if n < 10 then [0x30 + int n] else digits (n div 10) @ [0x30 + int (n mod 10)])"

declare digits.simps [simp del]

definition str_int :: "int \<Rightarrow> pystr" where
  "str_int i = (if i < 0 then 0x2D # digits (nat (- i)) else digits (nat i))"

definition zero_pad :: "nat \<Rightarrow> nat \<Rightarrow> pystr" where
  "zero_pad w n = replicate (w - length (digits n)) 0x30 @ digits n"

text \<open>
  The decimal digits after the point, by long division (at most \<open>n\<close> of them).
\<close>

fun frac_digits :: "nat \<Rightarrow> rat \<Rightarrow> pystr" where
  "frac_digits 0 f = []"
| "frac_digits (Suc n) f =
     (if f = 0 then []
      else (0x30 + \<lfloor>f * 10\<rfloor>) # frac_digits n (f * 10 - of_int \<lfloor>f * 10\<rfloor>))"

text \<open>
  \<open>str\<close> of a float in positional notation (\<open>600.0\<close>, \<open>1234.56\<close>); the exponent notation
  that Python uses below \<open>1e-4\<close> and from \<open>1e16\<close> on is not modelled.
\<close>

fun str_float :: "pyfloat \<Rightarrow> pystr" where
  "str_float NaN = lit ''nan''"
| "str_float PosInf = lit ''inf''"
| "str_float NegInf = lit ''-inf''"
| "str_float (Fin r) =
     (let a = \<bar>r\<bar>; ip = \<lfloor>a\<rfloor>; fd = frac_digits 17 (a - of_int ip)
      in (if r < 0 then [0x2D] else []) @ digits (nat ip) @ [0x2E] @ (if fd = [] then [0x30] else fd))"

fun py_str :: "pyval \<Rightarrow> pystr" where
  "py_str PNone = lit ''None''"
| "py_str (PBool b) = (if b then lit ''True'' else lit ''False'')"
| "py_str (PInt i) = str_int i"
| "py_str (PFloat f) = str_float f"
| "py_str (PStr s) = s"
| "py_str (PDate y m d) =
     zero_pad 4 y @ [0x2D] @ zero_pad 2 m @ [0x2D] @ zero_pad 2 d @ lit '' 00:00:00''"
| "py_str PNaT = lit ''NaT''"

text \<open>Truth value of an object, as \<open>or\<close>, \<open>and\<close>, \<open>not\<close> and \<open>if\<close> test it.\<close>

fun truthy :: "pyval \<Rightarrow> bool" where
  "truthy PNone = False"
| "truthy (PBool b) = b"
| "truthy (PInt i) = (i \<noteq> 0)"
| "truthy (PFloat f) = (f \<noteq> Fin 0)"
| "truthy (PStr s) = (s \<noteq> [])"
| "truthy (PDate y m d) = True"
| "truthy PNaT = True"

text \<open>\<open>a or b\<close>.\<close>

definition py_or :: "pyval \<Rightarrow> pyval \<Rightarrow> pyval" where
  "py_or a b = (if truthy a then a else b)"

section \<open>Text normaliser\<close>

definition normalize_text :: "pyval \<Rightarrow> pystr" where
  "normalize_text v =
     (let text = lower (strip (py_str (py_or v (PStr []))));
          text = filter (\<lambda>c. \<not> is_Mn c) (nfd text);
          text = collapse_ws text
      in text)"

section \<open>Month normaliser\<close>

definition MONTHS_ES :: "pystr list" where
  "MONTHS_ES = map lit [''enero'', ''febrero'', ''marzo'', ''abril'', ''mayo'', ''junio'', ''julio'',
     ''agosto'', ''septiembre'', ''octubre'', ''noviembre'', ''diciembre'']"

text \<open>The alias dictionary, in insertion order.\<close>

definition MONTH_ALIAS :: "(pystr \<times> pystr) list" where
  "MONTH_ALIAS = map (\<lambda>(a, m). (lit a, lit m))
     [(''ene'', ''enero''), (''feb'', ''febrero''), (''mar'', ''marzo''), (''abr'', ''abril''),
      (''may'', ''mayo''), (''jun'', ''junio''), (''jul'', ''julio''), (''ago'', ''agosto''),
      (''sep'', ''septiembre''), (''set'', ''septiembre''), (''oct'', ''octubre''),
      (''nov'', ''noviembre''), (''dic'', ''diciembre'')]"

text \<open>
  \<open>calendar.month_name\<close>, indexed from 1 (index 0 holds the empty string). The program
  never calls \<open>locale.setlocale\<close>, so the names are those of the C locale.
\<close>

definition month_name :: "pystr list" where
  "month_name = [] # map lit [''January'', ''February'', ''March'', ''April'', ''May'', ''June'',
     ''July'', ''August'', ''September'', ''October'', ''November'', ''December'']"

definition prefixed :: "pystr \<Rightarrow> pystr \<Rightarrow> bool" where
  "prefixed raw m \<longleftrightarrow> startswith raw (m @ lit '' '') \<or> startswith raw (m @ lit ''-'')
     \<or> startswith raw (m @ lit ''/'')"

text \<open>The optional group \<open>([/-]\d{2,4})?\<close> up to the end of the string.\<close>

definition year_suffix_ok :: "pystr \<Rightarrow> bool" where
  "year_suffix_ok r \<longleftrightarrow>
     (case r of [] \<Rightarrow> True
      | c # ds \<Rightarrow> (c = 0x2F \<or> c = 0x2D) \<and> 2 \<le> length ds \<and> length ds \<le> 4 \<and> list_all is_digit ds)"

text \<open>
  \<open>re.fullmatch(r"(0?[1-9]|1[0-2])([/-]\d{2,4})?", raw)\<close>: the ways group 1 can match a
  prefix, in the order the matcher tries them, each with the rest of the string; the
  result is the number \<open>int(group(1))\<close> of the first way whose rest matches.
\<close>

definition compact_month :: "pystr \<Rightarrow> int option" where
  "compact_month raw =
     (let alt1a = (case raw of c # d # r \<Rightarrow>
                     if c = 0x30 \<and> 0x31 \<le> d \<and> d \<le> 0x39 then [(d - 0x30, r)] else []
                   | _ \<Rightarrow> []);
          alt1b = (case raw of d # r \<Rightarrow> if 0x31 \<le> d \<and> d \<le> 0x39 then [(d - 0x30, r)] else []
                   | _ \<Rightarrow> []);
          alt2 = (case raw of c # d # r \<Rightarrow>
                    if c = 0x31 \<and> 0x30 \<le> d \<and> d \<le> 0x32 then [(10 + (d - 0x30), r)] else []
                  | _ \<Rightarrow> [])
      in map_option fst (find (\<lambda>(k, r). year_suffix_ok r) (alt1a @ alt1b @ alt2)))"

definition normalize_month :: "pyval \<Rightarrow> pystr" where
  "normalize_month v =
     (let raw = normalize_text v in
      if raw = [] then []
      else if raw \<in> set MONTHS_ES then raw
      else case map_of MONTH_ALIAS raw of Some m \<Rightarrow> m | None \<Rightarrow>
       (case find (\<lambda>idx. raw = str_int (int idx)) [1..<13] of
          Some idx \<Rightarrow> MONTHS_ES ! (idx - 1) | None \<Rightarrow>
       (case find (\<lambda>idx. raw = normalize_text (PStr (month_name ! idx))) [1..<13] of
          Some idx \<Rightarrow> MONTHS_ES ! (idx - 1) | None \<Rightarrow>
       (case find (prefixed raw) MONTHS_ES of Some m \<Rightarrow> m | None \<Rightarrow>
       (case find (\<lambda>(a, m). prefixed raw a) MONTH_ALIAS of Some (a, m) \<Rightarrow> m | None \<Rightarrow>
       (case compact_month raw of Some k \<Rightarrow> MONTHS_ES ! (nat k - 1) | None \<Rightarrow> raw))))))"

definition int_of_digits :: "pystr \<Rightarrow> int" where
  "int_of_digits ds = foldl (\<lambda>a c. 10 * a + (c - 0x30)) 0 ds"

text \<open>
  \<open>re.search(r"\b(19\d{2}|20\d{2}|21\d{2})\b", s)\<close>: \<open>year_at\<close> is the match of the group
  and of the closing \<open>\b\<close> at the head of the string; \<open>year_search\<close> walks the string
  from the left, remembering whether the previous character is a word character (the
  opening \<open>\b\<close>).
\<close>

definition year_at :: "pystr \<Rightarrow> bool" where
  "year_at s \<longleftrightarrow>
     (case s of a # b # c # d # rest \<Rightarrow>
        ((a = 0x31 \<and> b = 0x39) \<or> (a = 0x32 \<and> b = 0x30) \<or> (a = 0x32 \<and> b = 0x31))
        \<and> is_digit c \<and> is_digit d \<and> (case rest of [] \<Rightarrow> True | e # _ \<Rightarrow> \<not> is_word e)
      | _ \<Rightarrow> False)"

fun year_search :: "bool \<Rightarrow> pystr \<Rightarrow> int option" where
  "year_search prev_word [] = None"
| "year_search prev_word (c # cs) =
     (if \<not> prev_word \<and> year_at (c # cs) then Some (int_of_digits (take 4 (c # cs)))
      else year_search (is_word c) cs)"

fun extract_year :: "pyval \<Rightarrow> int option" where
  "extract_year PNone = None"
| "extract_year (PDate y m d) =
     (if 1900 \<le> y \<and> y \<le> 2100 then Some (int y) else year_search False (py_str (PDate y m d)))"
| "extract_year v = year_search False (py_str v)"

text \<open>\<open>a or b\<close> on values of type \<open>int | None\<close>.\<close>

definition int_or :: "int option \<Rightarrow> int option \<Rightarrow> int option" where
  "int_or a b = (case a of Some y \<Rightarrow> if y \<noteq> 0 then Some y else b | None \<Rightarrow> b)"

definition normalize_month_year :: "pyval \<Rightarrow> int option \<Rightarrow> pystr" where
  "normalize_month_year v fallback_year =
     (let month = normalize_month v in
      if month \<notin> set MONTHS_ES then []
      else (let year = int_or (extract_year v) fallback_year
            in case year of
                 Some y \<Rightarrow> if y \<noteq> 0 then month @ lit '' '' @ str_int y else month
               | None \<Rightarrow> month))"

text \<open>The call with one argument, as \<open>Series.map(normalize_month_year)\<close> makes it.\<close>

definition normalize_month_year_default :: "pyval \<Rightarrow> pystr" where
  "normalize_month_year_default v = normalize_month_year v None"

section \<open>Number normaliser\<close>

datatype http_reason =
    NoSalespersonOrClient
  | LongNeedsMonthAndRevenue
  | WideNeedsMonthColumns
  | NegativeCommission

text \<open>
  The exceptions the modelled code can raise: the client errors it raises itself
  (\<open>HTTPException\<close> with status 400) and the exceptions of the Python operations it uses.
\<close>

datatype error = HTTP400 http_reason | OverflowError | TypeError | KeyError | AttributeError

text \<open>
  \<open>float(n)\<close> for an \<open>int\<close>: an integer that rounds to a magnitude beyond the largest
  double raises \<open>OverflowError\<close>.
\<close>

definition float_of_int :: "int \<Rightarrow> error + pyfloat" where
  "float_of_int n = (if 2 ^ 1024 - 2 ^ 970 \<le> \<bar>n\<bar> then Inl OverflowError else Inr (Fin (of_int n)))"

text \<open>A run of digits, where single underscores may separate digits; and the rest.\<close>

fun digit_run :: "pystr \<Rightarrow> pystr \<times> pystr" where
  "digit_run (c # u # d # r) =
     (if is_digit c \<and> u = 0x5F \<and> is_digit d then apfst ((#) c) (digit_run (d # r))
      else if is_digit c then apfst ((#) c) (digit_run (u # d # r))
      else ([], c # u # d # r))"
| "digit_run (c # r) = (if is_digit c then apfst ((#) c) (digit_run r) else ([], c # r))"
| "digit_run [] = ([], [])"

definition take_sign :: "pystr \<Rightarrow> bool \<times> pystr" where
  "take_sign s = (case s of c # r \<Rightarrow> if c = 0x2D then (True, r) else if c = 0x2B then (False, r)
                    else (False, s) | [] \<Rightarrow> (False, s))"

definition scale10 :: "rat \<Rightarrow> int \<Rightarrow> rat" where
  "scale10 x k = (if 0 \<le> k then x * 10 ^ nat k else x / 10 ^ nat (- k))"

text \<open>
  \<open>float(text)\<close> for a \<open>str\<close>; \<open>None\<close> stands for \<open>ValueError\<close>. The grammar is the one of
  Python for ASCII digits: white space around, a sign, then \<open>inf\<close>, \<open>infinity\<close> or \<open>nan\<close> in
  any case, or a decimal number with optional fraction and exponent.
\<close>

definition py_float :: "pystr \<Rightarrow> pyfloat option" where
  "py_float s =
     (let (neg, t) = take_sign (strip s) in
      if lower t = lit ''inf'' \<or> lower t = lit ''infinity'' then Some (if neg then NegInf else PosInf)
      else if lower t = lit ''nan'' then Some NaN
      else
       (let (ip, r1) = digit_run t;
            (fp, r2) = (case r1 of c # r \<Rightarrow> if c = 0x2E then digit_run r else ([], r1)
                        | [] \<Rightarrow> ([], []));
            m = (if neg then - 1 else 1) * of_int (int_of_digits (ip @ fp))
        in if ip = [] \<and> fp = [] then None
           else case r2 of
                  [] \<Rightarrow> Some (Fin (scale10 m (- int (length fp))))
                | e # r \<Rightarrow>
                    if e = 0x65 \<or> e = 0x45 then
                      (let (eneg, r3) = take_sign r; (ed, r4) = digit_run r3 in
                       if ed = [] \<or> r4 \<noteq> [] then None
                       else Some (Fin (scale10 m ((if eneg then - 1 else 1) * int_of_digits ed
                                                   - int (length fp)))))
                    else None))"

text \<open>\<open>s.rfind(c)\<close>: the highest index of \<open>c\<close> in \<open>s\<close>, or \<open>-1\<close>.\<close>

fun rfind_from :: "int \<Rightarrow> int \<Rightarrow> int \<Rightarrow> pystr \<Rightarrow> int" where
  "rfind_from c i best [] = best"
| "rfind_from c i best (x # xs) = rfind_from c (i + 1) (if x = c then i else best) xs"

definition rfind :: "pystr \<Rightarrow> int \<Rightarrow> int" where
  "rfind s c = rfind_from c 0 (- 1) s"

text \<open>The part of \<open>parse_number\<close> that works on the text of a value that is no number.\<close>

definition parse_number_text :: "pystr \<Rightarrow> pyfloat" where
  "parse_number_text value_str =
     (let text = strip value_str in
      if text = [] then Fin 0
      else if normalize_text (PStr text) \<in> set [lit ''nan'', lit ''none'', lit ''null''] then Fin 0
      else
       (let text = replace_cp 0x20 [] (replace_cp 0x20AC [] text);
            text = (if 0x2C \<in> set text \<and> 0x2E \<in> set text then
                      (if rfind text 0x2C > rfind text 0x2E
                       then replace_cp 0x2C [0x2E] (replace_cp 0x2E [] text)
                       else replace_cp 0x2C [] text)
                    else replace_cp 0x2C [0x2E] text)
        in case py_float text of Some f \<Rightarrow> f | None \<Rightarrow> Fin 0))"

fun parse_number :: "pyval \<Rightarrow> error + pyfloat" where
  "parse_number PNone = Inr (Fin 0)"
| "parse_number (PInt n) = float_of_int n"
| "parse_number (PBool b) = float_of_int (if b then 1 else 0)"
| "parse_number (PFloat f) = Inr f"
| "parse_number v = Inr (parse_number_text (py_str v))"

section \<open>Tables\<close>

text \<open>
  A \<open>DataFrame\<close> as \<open>read_excel\<close> builds it: the columns in the order of the sheet, each
  with its label (a header cell, not always a string) and its cells. All columns have
  the same number of cells, and the row index is the position of the row.
\<close>

type_synonym dataframe = "(pyval \<times> pyval list) list"

definition columns :: "dataframe \<Rightarrow> pyval list" where
  "columns df = map fst df"

definition well_formed :: "dataframe \<Rightarrow> bool" where
  "well_formed df \<longleftrightarrow> (\<forall>c\<in>set df. \<forall>d\<in>set df. length (snd c) = length (snd d))"

text \<open>\<open>df[label]\<close>; a label that is no column raises \<open>KeyError\<close>.\<close>

definition get_column :: "dataframe \<Rightarrow> pyval \<Rightarrow> error + pyval list" where
  "get_column df label = (case map_of df label of Some cells \<Rightarrow> Inr cells | None \<Rightarrow> Inl KeyError)"

text \<open>Sequencing of computations that may raise.\<close>

definition bind_err :: "error + 'a \<Rightarrow> ('a \<Rightarrow> error + 'b) \<Rightarrow> error + 'b" where
  "bind_err x f = (case x of Inl e \<Rightarrow> Inl e | Inr a \<Rightarrow> f a)"

fun map_err :: "('a \<Rightarrow> error + 'b) \<Rightarrow> 'a list \<Rightarrow> error + 'b list" where
  "map_err f [] = Inr []"
| "map_err f (x # xs) = bind_err (f x) (\<lambda>y. bind_err (map_err f xs) (\<lambda>ys. Inr (y # ys)))"

section \<open>Column detector\<close>

text \<open>
  \<open>d[k] = v\<close> on a dictionary kept in insertion order: a key that is present keeps its
  place and takes the new value.
\<close>

fun dict_put :: "'k \<Rightarrow> 'v \<Rightarrow> ('k \<times> 'v) list \<Rightarrow> ('k \<times> 'v) list" where
  "dict_put k v [] = [(k, v)]"
| "dict_put k v ((k', v') # d) = (if k' = k then (k, v) # d else (k', v') # dict_put k v d)"

text \<open>The result is \<open>PNone\<close> when no column is found.\<close>

definition find_column :: "dataframe \<Rightarrow> pystr list \<Rightarrow> pyval" where
  "find_column df candidates =
     (let normalized = foldl (\<lambda>d col. dict_put (normalize_text col) col d) [] (columns df) in
      case find (\<lambda>candidate. map_of normalized candidate \<noteq> None) candidates of
        Some candidate \<Rightarrow>
          (case map_of normalized candidate of Some original \<Rightarrow> original | None \<Rightarrow> PNone)
      | None \<Rightarrow>
         (case find (\<lambda>(key, original). list_ex (\<lambda>candidate. contains key candidate) candidates)
                 normalized of
            Some (key, original) \<Rightarrow> original
          | None \<Rightarrow> PNone))"

text \<open>The test \<open>normalize_month(col) in MONTHS_ES\<close> of \<open>month_columns\<close>.\<close>

definition is_month_column :: "pyval \<Rightarrow> bool" where
  "is_month_column col \<longleftrightarrow> normalize_month col \<in> set MONTHS_ES"

definition month_columns :: "dataframe \<Rightarrow> pyval list" where
  "month_columns df = filter is_month_column (columns df)"

record detected_mapping =
  d_structure :: pystr
  d_comercial :: pyval
  d_cliente :: pyval
  d_mes :: pyval
  d_facturacion :: pyval
  d_month_columns :: "pyval list"

definition salesperson_candidates :: "pystr list" where
  "salesperson_candidates = map lit [''comercial'', ''nombre comercial'', ''vendedor'', ''agente'',
     ''salesperson'', ''asesor'', ''gestor'']"

definition client_candidates :: "pystr list" where
  "client_candidates = map lit [''cliente'', ''nombre cliente'', ''cuenta'', ''customer'',
     ''razon social'', ''empresa'', ''destinatario'']"

definition month_candidates :: "pystr list" where
  "month_candidates = map lit [''mes'', ''month'']"

definition revenue_candidates :: "pystr list" where
  "revenue_candidates = map lit [''facturacion bruta'', ''facturacion'', ''ventas'', ''importe'',
     ''total'', ''revenue'']"

definition detect_mapping :: "dataframe \<Rightarrow> detected_mapping" where
  "detect_mapping df =
     (let salesperson_col = find_column df salesperson_candidates;
          client_col = find_column df client_candidates;
          month_col = find_column df month_candidates;
          revenue_col = find_column df revenue_candidates;
          m_cols = month_columns df;
          structure = (if truthy month_col \<and> truthy revenue_col then lit ''long''
                       else if m_cols \<noteq> [] then lit ''wide'' else lit ''unknown'')
      in \<lparr>d_structure = structure,
          d_comercial = py_or salesperson_col (PStr []),
          d_cliente = py_or client_col (PStr []),
          d_mes = py_or month_col (PStr []),
          d_facturacion = py_or revenue_col (PStr []),
          d_month_columns = m_cols\<rparr>)"

section \<open>Mapping sanitizer\<close>

text \<open>
  A mapping comes from \<open>json.loads\<close> (a request field or the saved file), so its values
  are arbitrary JSON values. Lists and objects are not hashable.
\<close>

datatype jsonval =
    JNull
  | JBool bool
  | JInt int
  | JFloat pyfloat
  | JStr pystr
  | JList "jsonval list"
  | JDict "(pystr \<times> jsonval) list"

type_synonym json_object = "(pystr \<times> jsonval) list"

fun hashable :: "jsonval \<Rightarrow> bool" where
  "hashable (JList xs) = False"
| "hashable (JDict kvs) = False"
| "hashable v = True"

record user_mapping =
  u_structure :: pystr
  u_comercial :: pystr
  u_cliente :: pystr
  u_mes :: pystr
  u_facturacion :: pystr
  u_month_columns :: "pystr list"

text \<open>The inner function \<open>pick\<close>, applied to \<open>mapping.get(key)\<close>.\<close>

definition pick :: "pystr list \<Rightarrow> jsonval option \<Rightarrow> pystr" where
  "pick allowed col = (case col of Some (JStr s) \<Rightarrow> if s \<in> set allowed then s else [] | _ \<Rightarrow> [])"

definition pick_month_columns :: "pystr list \<Rightarrow> jsonval option \<Rightarrow> pystr list" where
  "pick_month_columns allowed month_cols_raw =
     (case month_cols_raw of
        Some (JList cols) \<Rightarrow>
          concat (map (\<lambda>col. case col of JStr s \<Rightarrow> if s \<in> set allowed then [s] else [] | _ \<Rightarrow> []) cols)
      | _ \<Rightarrow> [])"

text \<open>
  \<open>structure not in {"long", "wide", "unknown"}\<close> hashes \<open>structure\<close>: an unhashable value
  raises \<open>TypeError\<close>.
\<close>

definition sanitize_mapping :: "json_object \<Rightarrow> pystr list \<Rightarrow> error + user_mapping" where
  "sanitize_mapping mapping available_columns =
     (let month_cols = pick_month_columns available_columns (map_of mapping (lit ''month_columns''));
          structure = (case map_of mapping (lit ''structure'') of Some v \<Rightarrow> v
                       | None \<Rightarrow> JStr (lit ''unknown''))
      in if \<not> hashable structure then Inl TypeError
         else
          (let structure = (case structure of
                              JStr s \<Rightarrow> if s \<in> set [lit ''long'', lit ''wide'', lit ''unknown'']
                                        then s else lit ''unknown''
                            | _ \<Rightarrow> lit ''unknown'')
           in Inr \<lparr>u_structure = structure,
                   u_comercial = pick available_columns (map_of mapping (lit ''comercial'')),
                   u_cliente = pick available_columns (map_of mapping (lit ''cliente'')),
                   u_mes = pick available_columns (map_of mapping (lit ''mes'')),
                   u_facturacion = pick available_columns (map_of mapping (lit ''facturacion'')),
                   u_month_columns = month_cols\<rparr>))"

section \<open>Dataset normalizer\<close>

text \<open>The columns and the layout \<open>normalize_dataset\<close> works with.\<close>

record plan =
  p_structure :: pystr
  p_salesperson :: pyval
  p_client :: pyval
  p_month :: pyval
  p_revenue :: pyval
  p_month_cols :: "pyval list"

text \<open>
  Lines 264 to 269: each field of the sanitized mapping, \<open>or\<close> the detected one. The
  structure is taken from the sanitized mapping alone.
\<close>

definition effective_mapping :: "user_mapping \<Rightarrow> detected_mapping \<Rightarrow> plan" where
  "effective_mapping user_mapping detected =
     \<lparr>p_structure = u_structure user_mapping,
      p_salesperson = py_or (PStr (u_comercial user_mapping)) (d_comercial detected),
      p_client = py_or (PStr (u_cliente user_mapping)) (d_cliente detected),
      p_month = py_or (PStr (u_mes user_mapping)) (d_mes detected),
      p_revenue = py_or (PStr (u_facturacion user_mapping)) (d_facturacion detected),
      p_month_cols = (if u_month_columns user_mapping \<noteq> [] then map PStr (u_month_columns user_mapping)
                      else d_month_columns detected)\<rparr>"

text \<open>
  The list \<open>non_month\<close> of the fallback: the text of every label whose text is not in the
  set of detected month labels and that does not normalise to \<open>total\<close>.
\<close>

definition non_month_columns :: "dataframe \<Rightarrow> pyval list \<Rightarrow> pystr list" where
  "non_month_columns df month_cols =
     map py_str (filter (\<lambda>c. PStr (py_str c) \<notin> set month_cols \<and> normalize_text c \<noteq> lit ''total'')
                   (columns df))"

definition fallback_columns :: "dataframe \<Rightarrow> detected_mapping \<Rightarrow> plan \<Rightarrow> plan" where
  "fallback_columns df detected p =
     (if (\<not> truthy (p_salesperson p) \<or> \<not> truthy (p_client p)) \<and> d_month_columns detected \<noteq> [] then
        (let non_month = non_month_columns df (d_month_columns detected) in
         if 2 \<le> length non_month then
           p\<lparr>p_salesperson := py_or (p_salesperson p) (PStr (non_month ! 0)),
             p_client := py_or (p_client p) (PStr (non_month ! 1))\<rparr>
         else p)
      else p)"

definition resolve_structure :: "plan \<Rightarrow> plan" where
  "resolve_structure p =
     (if p_structure p = lit ''unknown'' then
        p\<lparr>p_structure := (if truthy (p_month p) \<and> truthy (p_revenue p) then lit ''long''
                           else lit ''wide'')\<rparr>
      else p)"

text \<open>Lines 260 to 290 of \<open>normalize_dataset\<close>: the columns and layout it settles on.\<close>

definition resolve_plan :: "dataframe \<Rightarrow> json_object option \<Rightarrow> error + plan" where
  "resolve_plan df mapping =
     (let detected = detect_mapping df;
          column_names = map py_str (columns df)
      in bind_err (sanitize_mapping (case mapping of Some m \<Rightarrow> m | None \<Rightarrow> []) column_names)
           (\<lambda>user_mapping.
              let p = fallback_columns df detected (effective_mapping user_mapping detected)
              in if \<not> truthy (p_salesperson p) \<or> \<not> truthy (p_client p)
                 then Inl (HTTP400 NoSalespersonOrClient)
                 else Inr (resolve_structure p)))"

text \<open>\<open>pd.isna\<close>: the blank cells.\<close>

definition is_na :: "pyval \<Rightarrow> bool" where
  "is_na v \<longleftrightarrow> v = PNone \<or> v = PFloat NaN \<or> v = PNaT"

text \<open>
  \<open>Series.ffill()\<close>: a blank cell takes the last value that is not blank above it; blank
  cells before the first value stay blank.
\<close>

fun ffill_from :: "pyval option \<Rightarrow> pyval list \<Rightarrow> pyval list" where
  "ffill_from prev [] = []"
| "ffill_from prev (c # cs) =
     (if is_na c then (case prev of Some v \<Rightarrow> v | None \<Rightarrow> c) # ffill_from prev cs
      else c # ffill_from (Some c) cs)"

definition ffill :: "pyval list \<Rightarrow> pyval list" where
  "ffill cells = ffill_from None cells"

text \<open>
  One element of \<open>clean_text_series\<close>: \<open>fillna("")\<close>, \<open>str\<close>, \<open>strip\<close>, and the replacement of
  a text that is \<open>nan\<close>, \<open>none\<close> or \<open>null\<close> in any case by the empty string. In a column of dates
  the fill value \<open>""\<close> is itself read as a missing date, so \<open>NaT\<close> stays and becomes the text
  \<open>NaT\<close>.
\<close>

definition fillna_empty :: "pyval \<Rightarrow> pyval" where
  "fillna_empty v = (if is_na v \<and> v \<noteq> PNaT then PStr [] else v)"

definition clean_text :: "pyval \<Rightarrow> pystr" where
  "clean_text v =
     (let cleaned = strip (py_str (fillna_empty v)) in
      if lower cleaned \<in> set [lit ''nan'', lit ''none'', lit ''null''] then [] else cleaned)"

definition clean_text_series :: "pyval list \<Rightarrow> pystr list" where
  "clean_text_series series = map clean_text series"

record normalized_record =
  idx :: nat
  comercial :: pystr
  cliente :: pystr
  mes :: pystr
  facturacion_bruta :: pyfloat

text \<open>A frame built from four aligned columns; the index is given with each row.\<close>

definition make_rows ::
  "(nat \<times> pystr \<times> pystr \<times> pystr \<times> pyfloat) list \<Rightarrow> normalized_record list" where
  "make_rows rows = map (\<lambda>(i, c, k, m, f).
       \<lparr>idx = i, comercial = c, cliente = k, mes = m, facturacion_bruta = f\<rparr>) rows"

definition build_long :: "dataframe \<Rightarrow> plan \<Rightarrow> error + normalized_record list" where
  "build_long df p =
     bind_err (get_column df (p_salesperson p)) (\<lambda>sp.
     bind_err (get_column df (p_client p)) (\<lambda>cl.
     bind_err (get_column df (p_month p)) (\<lambda>mc.
     bind_err (get_column df (p_revenue p)) (\<lambda>rc.
     bind_err (map_err parse_number rc) (\<lambda>fb.
       Inr (make_rows (zip [0..<length sp]
              (zip (clean_text_series (ffill sp))
                (zip (clean_text_series cl)
                  (zip (map normalize_month_year_default mc) fb))))))))))"

text \<open>
  The frame of one month column in the wide layout (its index is replaced when the
  frames are concatenated).
\<close>

definition wide_block ::
  "dataframe \<Rightarrow> pyval list \<Rightarrow> pyval list \<Rightarrow> pyval \<Rightarrow> error + (pystr \<times> pystr \<times> pystr \<times> pyfloat) list" where
  "wide_block df sp cl col =
     bind_err (get_column df col) (\<lambda>cells.
     bind_err (map_err parse_number cells) (\<lambda>fb.
       Inr (zip (clean_text_series (ffill sp))
             (zip (clean_text_series cl)
               (zip (replicate (length sp) (normalize_month_year_default col)) fb)))))"

text \<open>
  In the wide layout \<open>base = df[[salesperson_col, client_col]]\<close>; when both names are the
  same column, \<open>base[salesperson_col]\<close> is a frame of two columns, not a series, and
  \<open>clean_text_series\<close> fails on its \<open>.str\<close> with \<open>AttributeError\<close>.
\<close>

definition build_wide :: "dataframe \<Rightarrow> plan \<Rightarrow> error + normalized_record list" where
  "build_wide df p =
     bind_err (get_column df (p_salesperson p)) (\<lambda>sp.
     bind_err (get_column df (p_client p)) (\<lambda>cl.
       if p_salesperson p = p_client p then Inl AttributeError
       else bind_err (map_err (wide_block df sp cl) (p_month_cols p)) (\<lambda>blocks.
              Inr (make_rows (zip [0..<length (concat blocks)] (concat blocks))))))"

definition post_filter :: "normalized_record list \<Rightarrow> normalized_record list" where
  "post_filter normalized =
     (let normalized = filter (\<lambda>r. comercial r \<noteq> []) normalized;
          normalized = filter (\<lambda>r. cliente r \<noteq> []) normalized;
          normalized = filter (\<lambda>r. mes r \<noteq> []) normalized;
          normalized = filter (\<lambda>r. float_gt_zero (facturacion_bruta r)) normalized
      in normalized)"

definition build_frame :: "dataframe \<Rightarrow> plan \<Rightarrow> error + normalized_record list" where
  "build_frame df p =
     (if p_structure p = lit ''long'' then
        (if \<not> truthy (p_month p) \<or> \<not> truthy (p_revenue p) then Inl (HTTP400 LongNeedsMonthAndRevenue)
         else build_long df p)
      else
        (if p_month_cols p = [] then Inl (HTTP400 WideNeedsMonthColumns)
         else build_wide df p))"

definition normalize_dataset :: "dataframe \<Rightarrow> json_object option \<Rightarrow> error + normalized_record list" where
  "normalize_dataset df mapping =
     bind_err (resolve_plan df mapping) (\<lambda>p.
     bind_err (build_frame df p) (\<lambda>normalized. Inr (post_filter normalized)))"

section \<open>Filters and totals\<close>

fun float_add :: "pyfloat \<Rightarrow> pyfloat \<Rightarrow> pyfloat" where
  "float_add (Fin a) (Fin b) = Fin (a + b)"
| "float_add NaN y = NaN"
| "float_add x NaN = NaN"
| "float_add PosInf NegInf = NaN"
| "float_add NegInf PosInf = NaN"
| "float_add PosInf y = PosInf"
| "float_add NegInf y = NegInf"
| "float_add x PosInf = PosInf"
| "float_add x NegInf = NegInf"

definition float_sign :: "pyfloat \<Rightarrow> int" where
  "float_sign x = (if float_gt_zero x then 1 else if float_lt_zero x then - 1 else 0)"

fun float_mul :: "pyfloat \<Rightarrow> pyfloat \<Rightarrow> pyfloat" where
  "float_mul (Fin a) (Fin b) = Fin (a * b)"
| "float_mul NaN y = NaN"
| "float_mul x NaN = NaN"
| "float_mul x y =
     (if float_sign x * float_sign y = 0 then NaN
      else if float_sign x * float_sign y > 0 then PosInf else NegInf)"

text \<open>\<open>x / 100.0\<close>.\<close>

fun float_percent :: "pyfloat \<Rightarrow> pyfloat" where
  "float_percent (Fin r) = Fin (r / 100)"
| "float_percent x = x"

definition round_half_even :: "rat \<Rightarrow> int" where
  "round_half_even x =
     (let f = \<lfloor>x\<rfloor>; d = x - of_int f in
      if d < 1 / 2 then f else if 1 / 2 < d then f + 1 else if even f then f else f + 1)"

text \<open>\<open>round(x, 2)\<close>: to the nearest multiple of 0.01, ties to even; NaN and the infinities
  are returned as they are.\<close>

fun round2 :: "pyfloat \<Rightarrow> pyfloat" where
  "round2 (Fin r) = Fin (of_int (round_half_even (r * 100)) / 100)"
| "round2 x = x"

text \<open>\<open>Series.sum()\<close> skips NaN; the sum of no value is 0.\<close>

definition series_sum :: "pyfloat list \<Rightarrow> pyfloat" where
  "series_sum xs = foldl float_add (Fin 0) (filter (\<lambda>x. x \<noteq> NaN) xs)"

record analysis_row =
  r_comercial :: pystr
  r_cliente :: pystr
  r_mes :: pystr
  r_facturacion_bruta :: pyfloat
  r_comision_eur :: pyfloat

record analysis =
  total_facturacion_bruta :: pyfloat
  total_comision_eur :: pyfloat
  registros :: nat
  rows :: "analysis_row list"

text \<open>Lines 461 to 471 of \<open>analyze\<close>: the single filters stand in for empty lists, then the
  records are restricted to the wanted salespersons and months.\<close>

definition apply_filters ::
  "normalized_record list \<Rightarrow> pystr option \<Rightarrow> pystr option \<Rightarrow> pystr list \<Rightarrow> pystr list
     \<Rightarrow> normalized_record list" where
  "apply_filters normalized comercial_one mes_one comerciales meses =
     (let comerciales = (case comercial_one of
                           Some c \<Rightarrow> if comerciales = [] \<and> c \<noteq> [] then [c] else comerciales
                         | None \<Rightarrow> comerciales);
          meses = (case mes_one of
                     Some m \<Rightarrow> if meses = [] \<and> m \<noteq> [] then [m] else meses
                   | None \<Rightarrow> meses);
          normalized = (if comerciales \<noteq> [] then
                          filter (\<lambda>r. normalize_text (PStr (comercial r))
                                        \<in> set (map (\<lambda>c. normalize_text (PStr c)) comerciales)) normalized
                        else normalized);
          normalized = (if meses \<noteq> [] then
                          filter (\<lambda>r. normalize_text (PStr (mes r))
                                        \<in> set (map (\<lambda>m. normalize_text (PStr m)) meses)) normalized
                        else normalized)
      in normalized)"

text \<open>Lines 473 to 502 of \<open>analyze\<close>: the commission of each record, the totals and the
  rows of the answer.\<close>

definition summarize :: "normalized_record list \<Rightarrow> pyfloat \<Rightarrow> analysis" where
  "summarize normalized commission_rate =
     (let comision_eur = map (\<lambda>r. float_mul (facturacion_bruta r) (float_percent commission_rate))
                           normalized;
          total_facturacion = round2 (series_sum (map facturacion_bruta normalized));
          total_comision = round2 (series_sum comision_eur);
          out_rows = map (\<lambda>(r, c). \<lparr>r_comercial = comercial r, r_cliente = cliente r, r_mes = mes r,
                                  r_facturacion_bruta = round2 (facturacion_bruta r),
                                  r_comision_eur = round2 c\<rparr>) (zip normalized comision_eur)
      in \<lparr>total_facturacion_bruta = total_facturacion, total_comision_eur = total_comision,
          registros = length out_rows, rows = out_rows\<rparr>)"


section \<open>The specification's merge, and example tables\<close>



text \<open>
  A table in the long layout: the second row has a blank salesperson cell, the last row
  has no revenue.
\<close>

definition example_long :: dataframe where
  "example_long =
     [(PStr (lit ''Comercial''),
         [PStr (lit ''Ana''), PNone, PStr (lit ''Luis''), PStr (lit ''Luis'')]),
      (PStr (lit ''Cliente''),
         [PStr (lit ''Acme''), PStr (lit ''Bolt''), PStr (lit ''Cork''), PStr (lit ''Dune'')]),
      (PStr (lit ''Mes''),
         [PStr (lit ''Enero 2024''), PStr (lit ''feb 2024''), PStr (lit ''marzo''), PStr (lit ''abril'')]),
      (PStr (lit ''Facturacion''),
         [PInt 100, PStr (lit ''200,00''), PFloat (Fin 300), PInt 0])]"

definition example_long_records :: "normalized_record list" where
  "example_long_records =
     [\<lparr>idx = 0, comercial = lit ''Ana'', cliente = lit ''Acme'', mes = lit ''enero 2024'',
        facturacion_bruta = Fin 100\<rparr>,
      \<lparr>idx = 1, comercial = lit ''Ana'', cliente = lit ''Bolt'', mes = lit ''febrero 2024'',
        facturacion_bruta = Fin 200\<rparr>,
      \<lparr>idx = 2, comercial = lit ''Luis'', cliente = lit ''Cork'', mes = lit ''marzo'',
        facturacion_bruta = Fin 300\<rparr>]"

text \<open>A table with a month column and a single other column.\<close>

definition example_one_column :: dataframe where
  "example_one_column = [(PStr (lit ''X''), [PStr (lit ''Ana'')]), (PStr (lit ''Enero''), [PInt 10])]"

text \<open>A table whose month columns are headed by the numbers 1 and 2.\<close>

definition example_numbered :: dataframe where
  "example_numbered =
     [(PInt 1, [PInt 5]), (PInt 2, [PInt 6]),
      (PStr (lit ''Foo''), [PStr (lit ''Ana'')]), (PStr (lit ''Bar''), [PStr (lit ''Acme'')])]"

section \<open>Auxiliary notions for the proofs\<close>


text \<open>
  The columns that are neither a detected month column nor named \<open>total\<close>, in the order
  of the table: the candidates of the fallback as the specification describes them.
\<close>

definition fallback_candidates :: "dataframe \<Rightarrow> pyval list" where
  "fallback_candidates df =
     filter (\<lambda>c. c \<notin> set (month_columns df) \<and> normalize_text c \<noteq> lit ''total'') (columns df)"

text \<open>A table with two unnamed identity columns and a month column.\<close>

definition example_fallback :: dataframe where
  "example_fallback =
     [(PStr (lit ''Foo''), [PStr (lit ''Ana'')]), (PStr (lit ''Bar''), [PStr (lit ''Acme'')]),
      (PStr (lit ''Enero''), [PInt 10])]"

section \<open>Verified properties\<close>

subsection \<open>Years found by \<open>extract_year\<close>\<close>

lemma year_at_range:
  assumes "year_at s"
  shows "1900 \<le> int_of_digits (take 4 s) \<and> int_of_digits (take 4 s) \<le> 2199"
proof -
  from assms obtain a b c d rest where s: "s = a # b # c # d # rest"
    by (auto simp: year_at_def split: list.splits)
  from assms s have ab: "(a = 0x31 \<and> b = 0x39) \<or> (a = 0x32 \<and> b = 0x30) \<or> (a = 0x32 \<and> b = 0x31)"
    and cd: "0x30 \<le> c" "c \<le> 0x39" "0x30 \<le> d" "d \<le> 0x39"
    by (auto simp: year_at_def is_digit_def)
  have "int_of_digits (take 4 s) = 1000 * (a - 0x30) + 100 * (b - 0x30) + 10 * (c - 0x30) + (d - 0x30)"
    by (simp add: s int_of_digits_def)
  with ab cd show ?thesis by auto
qed

lemma year_search_range:
  "year_search p s = Some y \<Longrightarrow> 1900 \<le> y \<and> y \<le> 2199"
proof (induction s arbitrary: p)
  case Nil
  then show ?case by simp
next
  case (Cons c cs)
  show ?case
  proof (cases "\<not> p \<and> year_at (c # cs)")
    case True
    with Cons.prems have "y = int_of_digits (take 4 (c # cs))" by simp
    with True year_at_range [of "c # cs"] show ?thesis by simp
  next
    case False
    with Cons.prems have "year_search (is_word c) cs = Some y" by auto
    then show ?thesis by (rule Cons.IH)
  qed
qed

lemma extract_year_range:
  "extract_year v = Some y \<Longrightarrow> 1900 \<le> y \<and> y \<le> 2199"
  by (cases v) (auto dest: year_search_range split: if_splits)

subsection \<open>Month and year labels\<close>

text \<open>
  Claim C8. \<open>normalize_month_year\<close> returns the empty string when the month computed by
  \<open>normalize_month\<close> is not one of the twelve canonical names. Otherwise the year is the
  one \<open>extract_year\<close> finds in the value (it is never zero, so it is always used) or,
  failing that, the fallback year; the result is the month, a space and the year, and the
  bare month when there is no year. A fallback year of 0 counts as no year, as Python's
  \<open>or\<close> and \<open>if\<close> treat it.
\<close>

theorem normalize_month_year_spec:
  "normalize_month_year v fallback_year =
     (let month = normalize_month v;
          year = (case extract_year v of
                    Some y \<Rightarrow> Some y
                  | None \<Rightarrow> (case fallback_year of
                               Some y \<Rightarrow> if y = 0 then None else Some y
                             | None \<Rightarrow> None))
      in if month \<notin> set MONTHS_ES then []
         else case year of Some y \<Rightarrow> month @ lit '' '' @ str_int y | None \<Rightarrow> month)"
proof (cases "extract_year v")
  case None
  then show ?thesis
    by (simp add: normalize_month_year_def int_or_def Let_def split: option.splits)
next
  case (Some y)
  with extract_year_range [of v y] have "y \<noteq> 0" by simp
  with Some show ?thesis
    by (simp add: normalize_month_year_def int_or_def Let_def)
qed

theorem normalize_month_year_spec_witness:
  "normalize_month_year (PStr (lit ''Enero'')) (Some 2023) = lit ''enero 2023''"
proof -
  have "(let month = normalize_month (PStr (lit ''Enero''));
             year = (case extract_year (PStr (lit ''Enero'')) of
                       Some y \<Rightarrow> Some y
                     | None \<Rightarrow> (case Some 2023 of
                                  Some y \<Rightarrow> if y = 0 then None else Some y
                                | None \<Rightarrow> None))
         in if month \<notin> set MONTHS_ES then []
            else case year of Some y \<Rightarrow> month @ lit '' '' @ str_int y | None \<Rightarrow> month)
        = lit ''enero 2023''"
    by code_simp
  with normalize_month_year_spec [of "PStr (lit ''Enero'')" "Some 2023"] show ?thesis
    by (rule trans)
qed

lemma normalize_month_year_examples:
  "normalize_month_year (PStr (lit ''Ene-2024'')) (Some 1999) = lit ''enero 2024''"
  "normalize_month_year (PStr (lit ''Enero'')) (Some 0) = lit ''enero''"
  "normalize_month_year (PStr (lit ''Total'')) (Some 2023) = []"
  by code_simp+

subsection \<open>Numbers\<close>

lemma parse_number_examples:
  "parse_number (PStr (lit ''1.234,56'')) = Inr (Fin (123456 / 100))"
  "parse_number (PStr (lit ''1,234.56'')) = Inr (Fin (123456 / 100))"
  "parse_number (PStr []) = Inr (Fin 0)"
  "parse_number (PStr (lit ''nan'')) = Inr (Fin 0)"
  by code_simp+

lemma parse_number_str_total: "\<exists>f. parse_number (PStr s) = Inr f"
  by simp

text \<open>
  Claim C4. \<open>parse_number\<close> does not return a float for every input: an integer too
  large for a double goes through \<open>float(value)\<close>, outside the \<open>try\<close> block, and raises
  \<open>OverflowError\<close>.
\<close>

theorem parse_number_overflow:
  "parse_number (PInt (10 ^ 400)) = Inl OverflowError"
  by code_simp

subsection \<open>The example table\<close>

lemma example_long_plan:
  "resolve_plan example_long None =
     Inr \<lparr>p_structure = lit ''long'', p_salesperson = PStr (lit ''Comercial''),
          p_client = PStr (lit ''Cliente''), p_month = PStr (lit ''Mes''),
          p_revenue = PStr (lit ''Facturacion''), p_month_cols = []\<rparr>"
  by code_simp

lemma example_long_normalized:
  "normalize_dataset example_long None = Inr example_long_records"
  by code_simp

subsection \<open>The invariant of normalized records\<close>

lemma post_filter_invariant:
  "r \<in> set (post_filter normalized) \<Longrightarrow>
     comercial r \<noteq> [] \<and> cliente r \<noteq> [] \<and> mes r \<noteq> [] \<and> float_gt_zero (facturacion_bruta r)"
  by (simp add: post_filter_def)

lemma post_filter_subset: "set (post_filter normalized) \<subseteq> set normalized"
  by (auto simp: post_filter_def)

lemma normalize_dataset_InrD:
  assumes "normalize_dataset df mapping = Inr normalized"
  obtains p frame where "resolve_plan df mapping = Inr p" "build_frame df p = Inr frame"
    "normalized = post_filter frame"
  using assms by (auto simp: normalize_dataset_def bind_err_def split: sum.splits)

text \<open>
  Claim C1. Whenever \<open>normalize_dataset\<close> succeeds, every record it returns has a
  non-empty \<open>comercial\<close>, \<open>cliente\<close> and \<open>mes\<close> and a \<open>facturacion_bruta\<close> greater than 0; in
  particular no returned record has a \<open>facturacion_bruta\<close> of 0.
\<close>

theorem normalize_dataset_invariant:
  assumes "normalize_dataset df mapping = Inr normalized" and "r \<in> set normalized"
  shows "comercial r \<noteq> [] \<and> cliente r \<noteq> [] \<and> mes r \<noteq> []
         \<and> float_gt_zero (facturacion_bruta r) \<and> facturacion_bruta r \<noteq> Fin 0"
proof -
  from assms(1) obtain p frame where "normalized = post_filter frame"
    by (rule normalize_dataset_InrD)
  with assms(2) have *: "comercial r \<noteq> [] \<and> cliente r \<noteq> [] \<and> mes r \<noteq> []
      \<and> float_gt_zero (facturacion_bruta r)"
    by (simp add: post_filter_invariant)
  then have "facturacion_bruta r \<noteq> Fin 0" by auto
  with * show ?thesis by simp
qed

theorem normalize_dataset_invariant_witness:
  "normalize_dataset example_long None = Inr example_long_records
   \<and> hd example_long_records \<in> set example_long_records
   \<and> comercial (hd example_long_records) \<noteq> []
   \<and> cliente (hd example_long_records) \<noteq> []
   \<and> mes (hd example_long_records) \<noteq> []
   \<and> float_gt_zero (facturacion_bruta (hd example_long_records))
   \<and> facturacion_bruta (hd example_long_records) \<noteq> Fin 0"
proof -
  have mem: "hd example_long_records \<in> set example_long_records"
    by (simp add: example_long_records_def)
  from normalize_dataset_invariant [OF example_long_normalized mem]
    example_long_normalized mem
  show ?thesis by simp
qed

subsection \<open>Sanitized mappings and the merge\<close>



lemma pick_valid: "pick cols v = [] \<or> pick cols v \<in> set cols"
  by (auto simp: pick_def split: option.splits jsonval.splits)

lemma pick_month_columns_valid: "set (pick_month_columns cols v) \<subseteq> set cols"
  by (auto simp: pick_month_columns_def split: option.splits jsonval.splits if_splits)

text \<open>When \<open>sanitize_mapping\<close> returns, what it returns refers to present columns only.\<close>

lemma sanitize_mapping_valid:
  assumes "sanitize_mapping mapping cols = Inr um"
  shows "(u_comercial um = [] \<or> u_comercial um \<in> set cols)
    \<and> (u_cliente um = [] \<or> u_cliente um \<in> set cols)
    \<and> (u_mes um = [] \<or> u_mes um \<in> set cols)
    \<and> (u_facturacion um = [] \<or> u_facturacion um \<in> set cols)
    \<and> set (u_month_columns um) \<subseteq> set cols"
proof -
  from assms have "u_comercial um = pick cols (map_of mapping (lit ''comercial''))"
    and "u_cliente um = pick cols (map_of mapping (lit ''cliente''))"
    and "u_mes um = pick cols (map_of mapping (lit ''mes''))"
    and "u_facturacion um = pick cols (map_of mapping (lit ''facturacion''))"
    and "u_month_columns um = pick_month_columns cols (map_of mapping (lit ''month_columns''))"
    by (auto simp: sanitize_mapping_def Let_def split: if_splits)
  then show ?thesis
    using pick_valid pick_month_columns_valid by metis
qed

text \<open>
  Claim C7. \<open>sanitize_mapping\<close> is not total on untrusted input: a mapping whose
  \<open>structure\<close> is a JSON list (or object) makes the membership test on the set of valid
  structures raise \<open>TypeError\<close>, where the claim promises the default \<open>unknown\<close>.
\<close>

theorem sanitize_mapping_unhashable:
  "sanitize_mapping [(lit ''structure'', JList [])] [lit ''Comercial''] = Inl TypeError"
  by code_simp




subsection \<open>Structure inference\<close>

lemma normalize_text_falsy: "\<not> truthy v \<Longrightarrow> normalize_text v = []"
  by (simp add: normalize_text_def py_or_def strip_def lower_def nfd_def)

lemma contains_nonempty: "contains s p \<Longrightarrow> p \<noteq> [] \<Longrightarrow> s \<noteq> []"
  by (cases s) auto

lemma dict_put_set:
  "kv \<in> set (dict_put k v d) \<Longrightarrow> kv = (k, v) \<or> kv \<in> set d"
  by (induction d) (auto split: if_splits)

lemma normalized_dict_keys:
  assumes "\<And>k v. (k, v) \<in> set d \<Longrightarrow> k = normalize_text v"
    and "(k, v) \<in> set (foldl (\<lambda>d col. dict_put (normalize_text col) col d) d cols)"
  shows "k = normalize_text v"
  using assms
proof (induction cols arbitrary: d)
  case Nil
  then show ?case by simp
next
  case (Cons col cols)
  have "\<And>k v. (k, v) \<in> set (dict_put (normalize_text col) col d) \<Longrightarrow> k = normalize_text v"
    using Cons.prems(1) dict_put_set by fastforce
  with Cons.IH [of "dict_put (normalize_text col) col d"] Cons.prems(2)
  show ?case by simp
qed

text \<open>A column that \<open>find_column\<close> returns has a name that does not normalise to nothing.\<close>

lemma find_column_found:
  assumes "find_column df candidates \<noteq> PNone" and "\<And>c. c \<in> set candidates \<Longrightarrow> c \<noteq> []"
  shows "normalize_text (find_column df candidates) \<noteq> []"
proof -
  define normalized where
    "normalized = foldl (\<lambda>d col. dict_put (normalize_text col) col d) [] (columns df)"
  have keys: "\<And>k v. (k, v) \<in> set normalized \<Longrightarrow> k = normalize_text v"
    unfolding normalized_def by (rule normalized_dict_keys [where d = "[]"]) auto
  show ?thesis
  proof (cases "find (\<lambda>candidate. map_of normalized candidate \<noteq> None) candidates")
    case (Some candidate)
    then have cand: "candidate \<in> set candidates" and "map_of normalized candidate \<noteq> None"
      by (auto simp: find_Some_iff)
    then obtain original where orig: "map_of normalized candidate = Some original"
      by auto
    then have "candidate = normalize_text original"
      using keys map_of_SomeD by fastforce
    moreover have "find_column df candidates = original"
      using Some orig by (simp add: find_column_def normalized_def [symmetric])
    ultimately show ?thesis using assms(2) [OF cand] by simp
  next
    case None
    note first = None
    show ?thesis
    proof (cases "find (\<lambda>(key, original). list_ex (\<lambda>candidate. contains key candidate) candidates)
                    normalized")
      case None
      with first have "find_column df candidates = PNone"
        by (simp add: find_column_def normalized_def [symmetric])
      with assms(1) show ?thesis by simp
    next
      case (Some ko)
      obtain key original where ko: "ko = (key, original)" by (cases ko)
      from Some ko have mem: "(key, original) \<in> set normalized"
        and ex: "list_ex (\<lambda>candidate. contains key candidate) candidates"
        by (auto simp: find_Some_iff in_set_conv_nth)
      from ex obtain c where "c \<in> set candidates" "contains key c"
        by (auto simp: list_ex_iff)
      with assms(2) have "key \<noteq> []" using contains_nonempty by blast
      moreover from mem have "key = normalize_text original" by (rule keys)
      moreover have "find_column df candidates = original"
        using first Some ko by (simp add: find_column_def normalized_def [symmetric])
      ultimately show ?thesis by simp
    qed
  qed
qed

lemma find_column_truthy:
  assumes "\<And>c. c \<in> set candidates \<Longrightarrow> c \<noteq> []"
  shows "truthy (find_column df candidates) \<longleftrightarrow> find_column df candidates \<noteq> PNone"
proof
  assume "truthy (find_column df candidates)"
  then show "find_column df candidates \<noteq> PNone" by auto
next
  assume "find_column df candidates \<noteq> PNone"
  from find_column_found [OF this assms] show "truthy (find_column df candidates)"
    using normalize_text_falsy by blast
qed

lemma month_candidates_nonempty: "c \<in> set month_candidates \<Longrightarrow> c \<noteq> []"
  by (auto simp: month_candidates_def lit_def)

lemma revenue_candidates_nonempty: "c \<in> set revenue_candidates \<Longrightarrow> c \<noteq> []"
  by (auto simp: revenue_candidates_def lit_def)

text \<open>
  Claim C5. \<open>detect_mapping\<close> returns the structure \<open>long\<close> exactly when \<open>find_column\<close>
  finds both a month column and a revenue column, else \<open>wide\<close> exactly when the table has
  a column named as a month, else \<open>unknown\<close>. In \<open>normalize_dataset\<close> a structure \<open>unknown\<close>
  becomes \<open>long\<close> when the month and revenue columns are both resolved and \<open>wide\<close>
  otherwise; any other structure is kept.
\<close>

theorem structure_inference:
  "d_structure (detect_mapping df) =
     (if find_column df month_candidates \<noteq> PNone \<and> find_column df revenue_candidates \<noteq> PNone
      then lit ''long''
      else if month_columns df \<noteq> [] then lit ''wide'' else lit ''unknown'')
   \<and> p_structure (resolve_structure p) =
     (if p_structure p = lit ''unknown''
      then (if truthy (p_month p) \<and> truthy (p_revenue p) then lit ''long'' else lit ''wide'')
      else p_structure p)"
  using find_column_truthy [of month_candidates df, OF month_candidates_nonempty]
    find_column_truthy [of revenue_candidates df, OF revenue_candidates_nonempty]
  by (simp add: detect_mapping_def Let_def resolve_structure_def)

subsection \<open>Totals\<close>






lemma example_long_summary:
  "summarize (apply_filters example_long_records None None [] []) (Fin 10) =
     \<lparr>total_facturacion_bruta = Fin 600, total_comision_eur = Fin 60, registros = 3,
      rows = [\<lparr>r_comercial = lit ''Ana'', r_cliente = lit ''Acme'', r_mes = lit ''enero 2024'',
                r_facturacion_bruta = Fin 100, r_comision_eur = Fin 10\<rparr>,
              \<lparr>r_comercial = lit ''Ana'', r_cliente = lit ''Bolt'', r_mes = lit ''febrero 2024'',
                r_facturacion_bruta = Fin 200, r_comision_eur = Fin 20\<rparr>,
              \<lparr>r_comercial = lit ''Luis'', r_cliente = lit ''Cork'', r_mes = lit ''marzo'',
                r_facturacion_bruta = Fin 300, r_comision_eur = Fin 30\<rparr>]\<rparr>"
  by code_simp



text \<open>Rounding each row first would give another total.\<close>

lemma total_is_not_sum_of_rounded_rows:
  "total_facturacion_bruta (summarize
       [\<lparr>idx = 0, comercial = lit ''a'', cliente = lit ''b'', mes = lit ''enero'',
          facturacion_bruta = Fin (4 / 1000)\<rparr>,
        \<lparr>idx = 1, comercial = lit ''a'', cliente = lit ''b'', mes = lit ''enero'',
          facturacion_bruta = Fin (4 / 1000)\<rparr>] (Fin 0)) = Fin (1 / 100)
   \<and> series_sum (map r_facturacion_bruta (rows (summarize
       [\<lparr>idx = 0, comercial = lit ''a'', cliente = lit ''b'', mes = lit ''enero'',
          facturacion_bruta = Fin (4 / 1000)\<rparr>,
        \<lparr>idx = 1, comercial = lit ''a'', cliente = lit ''b'', mes = lit ''enero'',
          facturacion_bruta = Fin (4 / 1000)\<rparr>] (Fin 0)))) = Fin 0"
  by code_simp

subsection \<open>Forward fill\<close>

lemma length_ffill_from: "length (ffill_from prev cs) = length cs"
  by (induction cs arbitrary: prev) simp_all

lemma ffill_from_blank_run:
  "i < length cs \<Longrightarrow> (\<forall>k\<le>i. is_na (cs ! k)) \<Longrightarrow> ffill_from (Some v) cs ! i = v"
proof (induction cs arbitrary: i)
  case Nil
  then show ?case by simp
next
  case (Cons c cs)
  from Cons.prems(2) have c: "is_na c" by (metis le0 nth_Cons_0)
  show ?case
  proof (cases i)
    case 0
    with c show ?thesis by simp
  next
    case (Suc i')
    from Cons.prems(2) have "\<forall>k\<le>i'. is_na (cs ! k)"
      using Suc by (metis Suc_le_mono nth_Cons_Suc)
    with Cons.IH [of i'] Cons.prems(1) Suc c show ?thesis by simp
  qed
qed

lemma ffill_from_nearest:
  "j < i \<Longrightarrow> i < length cs \<Longrightarrow> \<not> is_na (cs ! j) \<Longrightarrow> (\<forall>k. j < k \<and> k \<le> i \<longrightarrow> is_na (cs ! k))
     \<Longrightarrow> ffill_from prev cs ! i = cs ! j"
proof (induction cs arbitrary: prev i j)
  case Nil
  then show ?case by simp
next
  case (Cons c cs)
  from Cons.prems(1) obtain i' where i: "i = Suc i'" by (cases i) auto
  show ?case
  proof (cases j)
    case 0
    with Cons.prems(3) have c: "\<not> is_na c" by simp
    have "\<forall>k\<le>i'. is_na (cs ! k)"
    proof (intro allI impI)
      fix k assume "k \<le> i'"
      with Cons.prems(4) [rule_format, of "Suc k"] 0 i show "is_na (cs ! k)" by simp
    qed
    with ffill_from_blank_run [of i' cs c] Cons.prems(2) i have "ffill_from (Some c) cs ! i' = c"
      by simp
    with c 0 i show ?thesis by simp
  next
    case (Suc j')
    have "\<forall>k. j' < k \<and> k \<le> i' \<longrightarrow> is_na (cs ! k)"
    proof (intro allI impI)
      fix k assume "j' < k \<and> k \<le> i'"
      with Cons.prems(4) [rule_format, of "Suc k"] Suc i show "is_na (cs ! k)" by simp
    qed
    with Cons.IH [of j' i'] Cons.prems(1,2,3) Suc i
    have "\<And>prev. ffill_from prev cs ! i' = cs ! j'" by simp
    with Suc i show ?thesis by simp
  qed
qed

text \<open>A column that is mapped without an exception is mapped cell by cell.\<close>

lemma map_err_Inr:
  "map_err f xs = Inr ys \<Longrightarrow> length ys = length xs \<and> (\<forall>i<length xs. f (xs ! i) = Inr (ys ! i))"
proof (induction xs arbitrary: ys)
  case Nil
  then show ?case by simp
next
  case (Cons x xs)
  from Cons.prems obtain y ys' where y: "f x = Inr y" and ys': "map_err f xs = Inr ys'"
    and ys: "ys = y # ys'"
    by (auto simp: bind_err_def split: sum.splits)
  from Cons.IH [OF ys'] have IH: "length ys' = length xs" "\<forall>i<length xs. f (xs ! i) = Inr (ys' ! i)"
    by simp_all
  have "\<forall>i<length (x # xs). f ((x # xs) ! i) = Inr (ys ! i)"
  proof (intro allI impI)
    fix i assume "i < length (x # xs)"
    then show "f ((x # xs) ! i) = Inr (ys ! i)"
      using y ys IH(2) by (cases i) simp_all
  qed
  with IH(1) ys show ?case by simp
qed

lemma get_column_member: "get_column df label = Inr cells \<Longrightarrow> (label, cells) \<in> set df"
  by (auto simp: get_column_def split: option.splits dest: map_of_SomeD)

lemma well_formed_columns:
  assumes "well_formed df" and "get_column df a = Inr xs" and "get_column df b = Inr ys"
  shows "length ys = length xs"
proof -
  from assms(2,3) have "(a, xs) \<in> set df" and "(b, ys) \<in> set df"
    by (simp_all add: get_column_member)
  with assms(1) show ?thesis
    unfolding well_formed_def by fastforce
qed

text \<open>The rows of a frame built from aligned columns, by position.\<close>

lemma make_rows_nth:
  assumes "length cs = n" and "length ks = n" and "length ms = n" and "length fs = n" and "i < n"
  shows "length (make_rows (zip [0..<n] (zip cs (zip ks (zip ms fs))))) = n"
    and "make_rows (zip [0..<n] (zip cs (zip ks (zip ms fs)))) ! i
       = \<lparr>idx = i, comercial = cs ! i, cliente = ks ! i, mes = ms ! i, facturacion_bruta = fs ! i\<rparr>"
  using assms by (simp_all add: make_rows_def)

lemma make_rows_idx:
  assumes "length cs = n" and "length ks = n" and "length ms = n" and "length fs = n"
    and "r \<in> set (make_rows (zip [0..<n] (zip cs (zip ks (zip ms fs)))))"
  shows "idx r < n \<and> r = make_rows (zip [0..<n] (zip cs (zip ks (zip ms fs)))) ! idx r"
proof -
  define frame where "frame = make_rows (zip [0..<n] (zip cs (zip ks (zip ms fs))))"
  from assms(5) obtain a where a: "a < length frame" "r = frame ! a"
    by (auto simp: frame_def in_set_conv_nth)
  have len: "length frame = n"
    using assms(1-4) by (simp add: frame_def make_rows_def)
  with a have "a < n" by simp
  from make_rows_nth(2) [OF assms(1-4) this] a(2) have "idx r = a"
    by (simp add: frame_def)
  with a len show ?thesis by (simp add: frame_def)
qed

lemma post_filter_member:
  "r \<in> set (post_filter frame) \<longleftrightarrow>
     r \<in> set frame \<and> comercial r \<noteq> [] \<and> cliente r \<noteq> [] \<and> mes r \<noteq> []
       \<and> float_gt_zero (facturacion_bruta r)"
  by (auto simp: post_filter_def)

text \<open>
  Claim C3. In the long layout the \<open>comercial\<close> of each output row is forward-filled. Take
  a table that \<open>normalize_dataset\<close> processes in the long layout, a row \<open>i\<close> whose
  salesperson cell is blank, and the nearest earlier row \<open>j\<close> whose salesperson cell is
  not blank. Then the only record the output can hold for row \<open>i\<close> is the one whose
  \<open>comercial\<close> is the cleaned salesperson cell of row \<open>j\<close> (with the client, month and
  revenue of row \<open>i\<close>), and the output does hold it exactly when these four fields pass the
  final filter: the row is not lost for its blank cell.
\<close>

theorem long_layout_forward_fill:
  assumes "well_formed df"
    and "normalize_dataset df mapping = Inr normalized"
    and "resolve_plan df mapping = Inr p" and "p_structure p = lit ''long''"
    and "get_column df (p_salesperson p) = Inr cells"
    and "get_column df (p_client p) = Inr clients"
    and "get_column df (p_month p) = Inr months"
    and "get_column df (p_revenue p) = Inr revenues"
    and "i < length cells" and "is_na (cells ! i)"
    and "j < i" and "\<not> is_na (cells ! j)" and "\<forall>k. j < k \<and> k < i \<longrightarrow> is_na (cells ! k)"
  shows "\<exists>f. parse_number (revenues ! i) = Inr f
     \<and> (\<forall>r\<in>set normalized. idx r = i \<longrightarrow>
           r = \<lparr>idx = i, comercial = clean_text (cells ! j), cliente = clean_text (clients ! i),
                 mes = normalize_month_year_default (months ! i), facturacion_bruta = f\<rparr>)
     \<and> (\<lparr>idx = i, comercial = clean_text (cells ! j), cliente = clean_text (clients ! i),
           mes = normalize_month_year_default (months ! i), facturacion_bruta = f\<rparr> \<in> set normalized
         \<longleftrightarrow> clean_text (cells ! j) \<noteq> [] \<and> clean_text (clients ! i) \<noteq> []
           \<and> normalize_month_year_default (months ! i) \<noteq> [] \<and> float_gt_zero f)"
proof -
  define n where "n = length cells"
  from assms(2) obtain p' frame where "resolve_plan df mapping = Inr p'"
    "build_frame df p' = Inr frame" "normalized = post_filter frame"
    by (rule normalize_dataset_InrD)
  with assms(3) have frame: "build_frame df p = Inr frame" and out: "normalized = post_filter frame"
    by simp_all
  from frame assms(4) have "build_long df p = Inr frame"
    by (simp add: build_frame_def split: if_splits)
  with assms(5-8) obtain fb where fb: "map_err parse_number revenues = Inr fb"
    and frame_eq: "frame = make_rows (zip [0..<length cells]
        (zip (clean_text_series (ffill cells))
          (zip (clean_text_series clients) (zip (map normalize_month_year_default months) fb))))"
    by (auto simp: build_long_def bind_err_def split: sum.splits)
  have len_k: "length clients = n" and len_m: "length months = n" and len_r: "length revenues = n"
    using well_formed_columns [OF assms(1) assms(5)] assms(6-8) by (simp_all add: n_def)
  from map_err_Inr [OF fb] len_r have len_f: "length fb = n"
    and f: "parse_number (revenues ! i) = Inr (fb ! i)"
    using assms(9) by (simp_all add: n_def)
  have lens: "length (clean_text_series (ffill cells)) = n" "length (clean_text_series clients) = n"
    "length (map normalize_month_year_default months) = n"
    using len_k len_m by (simp_all add: clean_text_series_def ffill_def length_ffill_from n_def)
  have i: "i < n" using assms(9) by (simp add: n_def)
  have "\<forall>k. j < k \<and> k \<le> i \<longrightarrow> is_na (cells ! k)"
    using assms(10,13) by (metis le_neq_implies_less)
  from ffill_from_nearest [OF assms(11) assms(9) assms(12) this]
  have filled: "ffill cells ! i = cells ! j" by (simp add: ffill_def)
  define row where "row = \<lparr>idx = i, comercial = clean_text (cells ! j),
    cliente = clean_text (clients ! i), mes = normalize_month_year_default (months ! i),
    facturacion_bruta = fb ! i\<rparr>"
  have nth: "frame ! i = row"
    using make_rows_nth(2) [OF lens len_f i] i len_k len_m filled
    by (simp add: frame_eq n_def [symmetric] row_def clean_text_series_def ffill_def length_ffill_from)
  have len_frame: "length frame = n"
    using make_rows_nth(1) [OF lens len_f i] by (simp add: frame_eq n_def [symmetric])
  have only: "\<forall>r\<in>set normalized. idx r = i \<longrightarrow> r = row"
  proof (intro ballI impI)
    fix r assume r: "r \<in> set normalized" and "idx r = i"
    from r out have "r \<in> set frame" by (simp add: post_filter_member)
    from make_rows_idx [OF lens len_f this [unfolded frame_eq n_def [symmetric]]] \<open>idx r = i\<close> nth
    show "r = row" by (simp add: frame_eq n_def [symmetric])
  qed
  have "row \<in> set frame"
    using nth i len_frame by (metis nth_mem)
  then have kept: "row \<in> set normalized \<longleftrightarrow> clean_text (cells ! j) \<noteq> [] \<and> clean_text (clients ! i) \<noteq> []
      \<and> normalize_month_year_default (months ! i) \<noteq> [] \<and> float_gt_zero (fb ! i)"
    by (simp add: out post_filter_member row_def)
  from f only kept show ?thesis
    unfolding row_def by blast
qed

lemma example_long_well_formed: "well_formed example_long"
  by (simp add: well_formed_def example_long_def)

lemma example_long_columns:
  "get_column example_long (PStr (lit ''Comercial''))
     = Inr [PStr (lit ''Ana''), PNone, PStr (lit ''Luis''), PStr (lit ''Luis'')]"
  "get_column example_long (PStr (lit ''Cliente''))
     = Inr [PStr (lit ''Acme''), PStr (lit ''Bolt''), PStr (lit ''Cork''), PStr (lit ''Dune'')]"
  "get_column example_long (PStr (lit ''Mes''))
     = Inr [PStr (lit ''Enero 2024''), PStr (lit ''feb 2024''), PStr (lit ''marzo''), PStr (lit ''abril'')]"
  "get_column example_long (PStr (lit ''Facturacion''))
     = Inr [PInt 100, PStr (lit ''200,00''), PFloat (Fin 300), PInt 0]"
  by code_simp+

lemma example_long_row_1:
  "clean_text (PStr (lit ''Ana'')) = lit ''Ana''"
  "clean_text (PStr (lit ''Bolt'')) = lit ''Bolt''"
  "normalize_month_year_default (PStr (lit ''feb 2024'')) = lit ''febrero 2024''"
  "parse_number (PStr (lit ''200,00'')) = Inr (Fin 200)"
  by code_simp+

theorem long_layout_forward_fill_witness:
  "\<exists>normalized. normalize_dataset example_long None = Inr normalized
     \<and> \<lparr>idx = 1, comercial = lit ''Ana'', cliente = lit ''Bolt'', mes = lit ''febrero 2024'',
          facturacion_bruta = Fin 200\<rparr> \<in> set normalized
     \<and> (\<forall>r\<in>set normalized. idx r = 1 \<longrightarrow> comercial r = lit ''Ana'')"
proof -
  let ?p = "\<lparr>p_structure = lit ''long'', p_salesperson = PStr (lit ''Comercial''),
    p_client = PStr (lit ''Cliente''), p_month = PStr (lit ''Mes''),
    p_revenue = PStr (lit ''Facturacion''), p_month_cols = []\<rparr>"
  let ?cells = "[PStr (lit ''Ana''), PNone, PStr (lit ''Luis''), PStr (lit ''Luis'')]"
  let ?clients = "[PStr (lit ''Acme''), PStr (lit ''Bolt''), PStr (lit ''Cork''), PStr (lit ''Dune'')]"
  let ?months = "[PStr (lit ''Enero 2024''), PStr (lit ''feb 2024''), PStr (lit ''marzo''),
    PStr (lit ''abril'')]"
  let ?revenues = "[PInt 100, PStr (lit ''200,00''), PFloat (Fin 300), PInt 0]"
  have long: "p_structure ?p = lit ''long''" by simp
  have cols: "get_column example_long (p_salesperson ?p) = Inr ?cells"
    "get_column example_long (p_client ?p) = Inr ?clients"
    "get_column example_long (p_month ?p) = Inr ?months"
    "get_column example_long (p_revenue ?p) = Inr ?revenues"
    by (simp_all only: plan.select_convs example_long_columns)
  have nths: "?cells ! 0 = PStr (lit ''Ana'')" "?cells ! 1 = PNone"
    "?clients ! 1 = PStr (lit ''Bolt'')" "?months ! 1 = PStr (lit ''feb 2024'')"
    "?revenues ! 1 = PStr (lit ''200,00'')"
    by simp_all
  have row: "1 < length ?cells" "is_na (?cells ! 1)" "(0 :: nat) < 1" "\<not> is_na (?cells ! 0)"
    by (simp_all add: is_na_def)
  have run: "\<forall>k. 0 < k \<and> k < (1 :: nat) \<longrightarrow> is_na (?cells ! k)"
    by auto
  note inst = long_layout_forward_fill [OF example_long_well_formed example_long_normalized
      example_long_plan long cols row run, unfolded nths example_long_row_1]
  from inst obtain f where f: "Inr (Fin 200) = (Inr f :: error + pyfloat)"
    and only: "\<forall>r\<in>set example_long_records. idx r = 1 \<longrightarrow>
       r = \<lparr>idx = 1, comercial = lit ''Ana'', cliente = lit ''Bolt'', mes = lit ''febrero 2024'',
             facturacion_bruta = f\<rparr>"
    and kept: "\<lparr>idx = 1, comercial = lit ''Ana'', cliente = lit ''Bolt'', mes = lit ''febrero 2024'',
         facturacion_bruta = f\<rparr> \<in> set example_long_records
       \<longleftrightarrow> lit ''Ana'' \<noteq> [] \<and> lit ''Bolt'' \<noteq> [] \<and> lit ''febrero 2024'' \<noteq> [] \<and> float_gt_zero f"
    by blast
  from f have f200: "f = Fin 200" by simp
  have "lit ''Ana'' \<noteq> [] \<and> lit ''Bolt'' \<noteq> [] \<and> lit ''febrero 2024'' \<noteq> [] \<and> float_gt_zero (Fin 200)"
    by (simp add: lit_def)
  with kept have mem: "\<lparr>idx = 1, comercial = lit ''Ana'', cliente = lit ''Bolt'',
      mes = lit ''febrero 2024'', facturacion_bruta = Fin 200\<rparr> \<in> set example_long_records"
    unfolding f200 by (rule iffD2)
  have "\<forall>r\<in>set example_long_records. idx r = 1 \<longrightarrow> comercial r = lit ''Ana''"
  proof (intro ballI impI)
    fix r assume "r \<in> set example_long_records" and "idx r = 1"
    with only have "r = \<lparr>idx = 1, comercial = lit ''Ana'', cliente = lit ''Bolt'',
        mes = lit ''febrero 2024'', facturacion_bruta = f\<rparr>"
      by blast
    then show "comercial r = lit ''Ana''" by (simp only: normalized_record.select_convs)
  qed
  with example_long_normalized mem show ?thesis by blast
qed

subsection \<open>The fallback for unnamed identity columns\<close>

lemma detected_month_columns: "d_month_columns (detect_mapping df) = month_columns df"
  by (simp add: detect_mapping_def Let_def)

lemma non_month_columns_strings:
  assumes "\<forall>c\<in>set (columns df). \<exists>s. c = PStr s"
  shows "map PStr (non_month_columns df (month_columns df)) = fallback_candidates df"
proof -
  have same: "\<And>c. c \<in> set (columns df) \<Longrightarrow> PStr (py_str c) = c"
    using assms by auto
  have "filter (\<lambda>c. PStr (py_str c) \<notin> set (month_columns df) \<and> normalize_text c \<noteq> lit ''total'')
          (columns df) = fallback_candidates df"
    unfolding fallback_candidates_def by (rule filter_cong) (simp_all add: same)
  moreover have "map PStr (map py_str (fallback_candidates df)) = fallback_candidates df"
  proof -
    have "\<And>c. c \<in> set (fallback_candidates df) \<Longrightarrow> PStr (py_str c) = c"
      using same by (simp add: fallback_candidates_def)
    then show ?thesis by (simp add: map_idI)
  qed
  ultimately show ?thesis by (simp add: non_month_columns_def)
qed

text \<open>
  Claim C6, as amended. For a table whose labels are strings, whose salesperson or client
  column is unresolved after the merge and which has detected month columns: when at
  least two columns are neither a detected month column nor named \<open>total\<close>, the salesperson
  is the leftmost of them and the client the second, each only where the role was
  unresolved; with fewer than two such columns nothing is assigned.
\<close>

theorem fallback_two_leftmost:
  assumes "\<forall>c\<in>set (columns df). \<exists>s. c = PStr s"
    and "\<not> truthy (p_salesperson p) \<or> \<not> truthy (p_client p)"
    and "month_columns df \<noteq> []"
  shows "fallback_columns df (detect_mapping df) p =
     (if 2 \<le> length (fallback_candidates df) then
        p\<lparr>p_salesperson := (if truthy (p_salesperson p) then p_salesperson p
                             else fallback_candidates df ! 0),
          p_client := (if truthy (p_client p) then p_client p
                       else fallback_candidates df ! 1)\<rparr>
      else p)"
proof -
  define non_month where "non_month = non_month_columns df (month_columns df)"
  have cand: "fallback_candidates df = map PStr non_month"
    using non_month_columns_strings [OF assms(1)] by (simp add: non_month_def)
  then have len: "length (fallback_candidates df) = length non_month" by simp
  show ?thesis
  proof (cases "2 \<le> length non_month")
    case True
    then have "0 < length non_month" and "1 < length non_month"
      by linarith+
    then have "fallback_candidates df ! 0 = PStr (non_month ! 0)"
      and "fallback_candidates df ! 1 = PStr (non_month ! 1)"
      by (simp_all add: cand)
    with True assms(2,3) len show ?thesis
      by (simp add: fallback_columns_def detected_month_columns non_month_def [symmetric]
          Let_def py_or_def)
  next
    case False
    with assms(2,3) len show ?thesis
      by (simp add: fallback_columns_def detected_month_columns non_month_def [symmetric] Let_def)
  qed
qed

lemma example_fallback_months: "month_columns example_fallback = [PStr (lit ''Enero'')]"
  by code_simp

lemma example_fallback_candidates:
  "fallback_candidates example_fallback = [PStr (lit ''Foo''), PStr (lit ''Bar'')]"
  by code_simp

theorem fallback_two_leftmost_witness:
  "fallback_columns example_fallback (detect_mapping example_fallback)
     \<lparr>p_structure = lit ''unknown'', p_salesperson = PStr [], p_client = PStr [],
       p_month = PStr [], p_revenue = PStr [], p_month_cols = [PStr (lit ''Enero'')]\<rparr>
   = \<lparr>p_structure = lit ''unknown'', p_salesperson = PStr (lit ''Foo''),
       p_client = PStr (lit ''Bar''), p_month = PStr [], p_revenue = PStr [],
       p_month_cols = [PStr (lit ''Enero'')]\<rparr>"
proof -
  have strings: "\<forall>c\<in>set (columns example_fallback). \<exists>s. c = PStr s"
    by (simp add: example_fallback_def columns_def)
  have unresolved: "\<not> truthy (p_salesperson
       \<lparr>p_structure = lit ''unknown'', p_salesperson = PStr [], p_client = PStr [],
         p_month = PStr [], p_revenue = PStr [], p_month_cols = [PStr (lit ''Enero'')]\<rparr>)
     \<or> \<not> truthy (p_client
       \<lparr>p_structure = lit ''unknown'', p_salesperson = PStr [], p_client = PStr [],
         p_month = PStr [], p_revenue = PStr [], p_month_cols = [PStr (lit ''Enero'')]\<rparr>)"
    by simp
  have months: "month_columns example_fallback \<noteq> []"
    by (simp add: example_fallback_months)
  from fallback_two_leftmost [OF strings unresolved months] show ?thesis
    by (simp add: example_fallback_candidates)
qed

text \<open>
  Claim C6 as stated fails: with a single column that is neither a month nor a total,
  that column is not assigned as salesperson, and the request is refused.
\<close>

theorem fallback_needs_two_columns:
  "month_columns example_one_column = [PStr (lit ''Enero'')]
   \<and> fallback_candidates example_one_column = [PStr (lit ''X'')]
   \<and> p_salesperson (fallback_columns example_one_column (detect_mapping example_one_column)
        \<lparr>p_structure = lit ''unknown'', p_salesperson = PStr [], p_client = PStr [],
          p_month = PStr [], p_revenue = PStr [], p_month_cols = [PStr (lit ''Enero'')]\<rparr>) = PStr []
   \<and> resolve_plan example_one_column None = Inl (HTTP400 NoSalespersonOrClient)"
  by code_simp

text \<open>
  Month columns headed by numbers are not excluded: their labels are integers, and the
  text of a label is looked up among the labels.
\<close>

lemma fallback_numbered_headers:
  "month_columns example_numbered = [PInt 1, PInt 2]"
  "non_month_columns example_numbered (month_columns example_numbered)
     = [lit ''1'', lit ''2'', lit ''Foo'', lit ''Bar'']"
  "normalize_dataset example_numbered None = Inl KeyError"
  by code_simp+


subsection \<open>Re-normalizing normalized text\<close>











subsubsection \<open>White space at the ends\<close>





subsubsection \<open>Collapsing white space\<close>






subsubsection \<open>The fixed point\<close>






end
